theory Spec2Isabelle
  imports Complex_Main "HOL-Library.AList"
begin

section \<open>Python values, dictionaries and exceptions\<close>

text \<open>
  The controllers of \<^verbatim>\<open>core/controllers/profile.py\<close> receive JSON payloads and hand
  Python objects to the user-settings service. A value is one of the following; a
  \<open>PDatetime\<close> stands for a \<^verbatim>\<open>datetime\<close> object (the type of
  \<^verbatim>\<open>last_agreed_to_terms\<close>), which is never falsy.
\<close>

datatype pyval =
    PNone
  | PBool bool
  | PInt int
  | PFloat real
  | PStr string
  | PDatetime nat
  | PList "pyval list"
  | PDict "(string \<times> pyval) list"

text \<open>Python truth value testing: \<^verbatim>\<open>bool(x)\<close>, \<^verbatim>\<open>if x\<close>, \<^verbatim>\<open>not x\<close>.\<close>

fun truthy :: "pyval \<Rightarrow> bool" where
  "truthy PNone = False"
| "truthy (PBool b) = b"
| "truthy (PInt i) = (i \<noteq> 0)"
| "truthy (PFloat x) = (x \<noteq> 0)"
| "truthy (PStr s) = (s \<noteq> [])"
| "truthy (PDatetime t) = True"
| "truthy (PList xs) = (xs \<noteq> [])"
| "truthy (PDict kvs) = (kvs \<noteq> [])"

text \<open>\<^verbatim>\<open>isinstance(x, bool)\<close>: only the two booleans; the integer 1 is not one.\<close>

fun isinstance_bool :: "pyval \<Rightarrow> bool" where
  "isinstance_bool (PBool b) = True"
| "isinstance_bool v = False"

type_synonym pydict = "string \<rightharpoonup> pyval"

text \<open>\<^verbatim>\<open>d.get(k)\<close>: the value stored under \<open>k\<close>, and \<^verbatim>\<open>None\<close> when the key is absent.\<close>

definition dict_get :: "pydict \<Rightarrow> string \<Rightarrow> pyval" where
  "dict_get d k = (case d k of None \<Rightarrow> PNone | Some v \<Rightarrow> v)"

text \<open>
  The argument of an exception: a string literal, or a format string applied to a value
  with \<^verbatim>\<open>%\<close> (kept symbolic: \<^verbatim>\<open>'Invalid update type: %s' % update_type\<close>).
\<close>

datatype message = Msg string | Msg_format string pyval

datatype exn =
    PageNotFoundException
  | InvalidInputException message
  | ValidationError message
  | UnauthorizedUserException
  | AttributeError
  | Exception string

text \<open>
  \<^verbatim>\<open>except utils.ValidationError as e: raise self.InvalidInputException(e)\<close>: a
  validation error becomes an invalid-input exception that carries it; every other
  exception passes through the \<^verbatim>\<open>try\<close> untouched.
\<close>

fun reraise_validation_error :: "exn \<Rightarrow> exn" where
  "reraise_validation_error (ValidationError m) = InvalidInputException m"
| "reraise_validation_error e = e"

section \<open>The user-settings service, as the controllers see it\<close>

type_synonym user_id = string

text \<open>
  Modelled from the spec: the class of user-settings objects is defined in the service,
  outside this module. The spec lists the attributes that the module references:
  \<open>user_bio\<close> (text), \<open>preferred_language_codes\<close> (a list), \<open>username\<close> ("nullable until
  set") and \<open>last_agreed_to_terms\<close> (a timestamp); they are the attributes that the
  handlers read. An attribute holds any Python value, as it does in Python.
\<close>

record user_settings =
  username :: pyval
  user_bio :: pyval
  preferred_language_codes :: pyval
  last_agreed_to_terms :: pyval

text \<open>
  A service operation runs on the store of the service (of any type \<open>'s\<close>), returns a
  value or raises, and leaves a store behind in both cases.
\<close>

type_synonym ('s, 'a) service = "'s \<Rightarrow> (exn + 'a) \<times> 's"

text \<open>
  The functions of \<^verbatim>\<open>core.domain.user_services\<close> that this module calls. Their code
  is not part of the module, so the controllers take them as a parameter.
\<close>

record 's user_services =
  get_user_settings_from_username :: "string \<Rightarrow> ('s, user_settings option) service"
  get_user_settings :: "user_id \<Rightarrow> ('s, user_settings option) service"
  update_user_bio :: "user_id \<Rightarrow> pyval \<Rightarrow> ('s, unit) service"
  update_preferred_language_codes :: "user_id \<Rightarrow> pyval \<Rightarrow> ('s, unit) service"
  record_agreement_to_terms :: "user_id \<Rightarrow> ('s, unit) service"
  get_username :: "user_id \<Rightarrow> ('s, pyval) service"
  set_username :: "user_id \<Rightarrow> pyval \<Rightarrow> ('s, unit) service"
  require_valid_username :: "pyval \<Rightarrow> ('s, unit) service"
  is_username_taken :: "pyval \<Rightarrow> ('s, bool) service"

text \<open>
  The world of a request: the store of the service and, as a record of what a handler
  did, the service calls made so far with their arguments, in order. A call is logged
  whether it returns or raises.
\<close>

datatype call =
    Get_user_settings_from_username string
  | Get_user_settings user_id
  | Update_user_bio user_id pyval
  | Update_preferred_language_codes user_id pyval
  | Record_agreement_to_terms user_id
  | Get_username user_id
  | Set_username user_id pyval
  | Require_valid_username pyval
  | Is_username_taken pyval

record 's world =
  store :: 's
  calls :: "call list"

definition invoke :: "call \<Rightarrow> ('s, 'a) service \<Rightarrow> 's world \<Rightarrow> (exn + 'a) \<times> 's world" where
  "invoke c f w =
     (case f (store w) of (r, s') \<Rightarrow> (r, \<lparr>store = s', calls = calls w @ [c]\<rparr>))"

section \<open>Configuration and request handlers\<close>

text \<open>
  The constants of \<^verbatim>\<open>feconf\<close>, the function of \<^verbatim>\<open>utils\<close> and the value of the
  configuration property \<^verbatim>\<open>EDITOR_PREREQUISITES_AGREEMENT\<close> that the module reads;
  they are defined elsewhere and are parameters here.
\<close>

record language_code =
  code :: pyval
  description :: pyval

record env =
  NAV_MODE_PROFILE :: pyval
  ALL_LANGUAGE_CODES :: "language_code list"
  get_short_language_description :: "pyval \<Rightarrow> pyval"
  EDITOR_PREREQUISITES_AGREEMENT_value :: pyval

text \<open>
  What a handler instance holds when a method runs: \<^verbatim>\<open>self.user_id\<close> (the id of the
  logged-in user, if any), \<^verbatim>\<open>self.payload\<close> (the JSON payload of the request) and
  \<^verbatim>\<open>self.values\<close> (the template values set up by the base handler; the field is
  \<open>values_of\<close> here, \<open>values\<close> being a keyword of Isabelle). A method ends by rendering a
  template or a JSON object, by returning without output, or by raising.
\<close>

record handler =
  user_id :: "user_id option"
  payload :: pydict
  values_of :: pydict

datatype response =
    Rendered_Template string pydict
  | Rendered_Json pydict
  | Default_Response

type_synonym 's outcome = "(exn + response) \<times> 's world"

text \<open>
  Modelled from the spec: the decorator \<^verbatim>\<open>base.require_user\<close> is defined in the base
  handler, outside this module. The spec describes it as a precondition gate that
  "fails with an authorization error if no authenticated user is bound to the request";
  otherwise the method runs, with \<^verbatim>\<open>self.user_id\<close> the id of that user.
\<close>

definition require_user ::
  "(user_id \<Rightarrow> handler \<Rightarrow> 's world \<Rightarrow> 's outcome) \<Rightarrow> handler \<Rightarrow> 's world \<Rightarrow> 's outcome" where
  "require_user method self w =
     (case user_id self of
        None \<Rightarrow> (Inl UnauthorizedUserException, w)
      | Some uid \<Rightarrow> method uid self w)"

subsection \<open>ProfilePage\<close>

definition ProfilePage_get ::
  "env \<Rightarrow> 's user_services \<Rightarrow> string \<Rightarrow> handler \<Rightarrow> 's world \<Rightarrow> 's outcome" where
  "ProfilePage_get cfg svc uname self w =
     (if \<not> truthy (PStr uname) then (Inl PageNotFoundException, w)
      else
        (case invoke (Get_user_settings_from_username uname)
                (get_user_settings_from_username svc uname) w of
           (Inl e, w') \<Rightarrow> (Inl e, w')
         | (Inr None, w') \<Rightarrow> (Inl PageNotFoundException, w')
         | (Inr (Some settings), w') \<Rightarrow>
             (Inr (Rendered_Template ''profile/profile.html''
                (values_of self ++
                   [''nav_mode'' \<mapsto> NAV_MODE_PROFILE cfg,
                    ''user_bio'' \<mapsto> user_bio settings])), w')))"

subsection \<open>PreferencesPage\<close>

definition PreferencesPage_get_body ::
  "env \<Rightarrow> user_id \<Rightarrow> handler \<Rightarrow> 's world \<Rightarrow> 's outcome" where
  "PreferencesPage_get_body cfg uid self w =
     (Inr (Rendered_Template ''profile/preferences.html''
        (values_of self ++
           [''nav_mode'' \<mapsto> NAV_MODE_PROFILE cfg,
            ''LANGUAGE_CODES_AND_NAMES'' \<mapsto>
               PList (map (\<lambda>lc. PDict
                         [(''code'', code lc),
                          (''name'', get_short_language_description cfg (description lc))])
                       (ALL_LANGUAGE_CODES cfg))])), w)"

definition PreferencesPage_get :: "env \<Rightarrow> handler \<Rightarrow> 's world \<Rightarrow> 's outcome" where
  "PreferencesPage_get cfg = require_user (PreferencesPage_get_body cfg)"

subsection \<open>PreferencesHandler\<close>

definition PreferencesHandler_get_body ::
  "'s user_services \<Rightarrow> user_id \<Rightarrow> handler \<Rightarrow> 's world \<Rightarrow> 's outcome" where
  "PreferencesHandler_get_body svc uid self w =
     (case invoke (Get_user_settings uid) (get_user_settings svc uid) w of
        (Inl e, w') \<Rightarrow> (Inl e, w')
      | (Inr None, w') \<Rightarrow> (Inl AttributeError, w')
      | (Inr (Some settings), w') \<Rightarrow>
          (Inr (Rendered_Json
             (values_of self ++
                [''user_bio'' \<mapsto> user_bio settings,
                 ''preferred_language_codes'' \<mapsto> preferred_language_codes settings])), w'))"

definition PreferencesHandler_get :: "'s user_services \<Rightarrow> handler \<Rightarrow> 's world \<Rightarrow> 's outcome" where
  "PreferencesHandler_get svc = require_user (PreferencesHandler_get_body svc)"

definition PreferencesHandler_put_body ::
  "'s user_services \<Rightarrow> user_id \<Rightarrow> handler \<Rightarrow> 's world \<Rightarrow> 's outcome" where
  "PreferencesHandler_put_body svc uid self w =
     (let update_type = dict_get (payload self) ''update_type'';
          data = dict_get (payload self) ''data''
      in if update_type = PStr ''user_bio'' then
           (case invoke (Update_user_bio uid data) (update_user_bio svc uid data) w of
              (Inl e, w') \<Rightarrow> (Inl e, w')
            | (Inr u, w') \<Rightarrow> (Inr Default_Response, w'))
         else if update_type = PStr ''preferred_language_codes'' then
           (case invoke (Update_preferred_language_codes uid data)
                   (update_preferred_language_codes svc uid data) w of
              (Inl e, w') \<Rightarrow> (Inl e, w')
            | (Inr u, w') \<Rightarrow> (Inr Default_Response, w'))
         else
           (Inl (InvalidInputException
                   (Msg_format ''Invalid update type: %s'' update_type)), w))"

definition PreferencesHandler_put :: "'s user_services \<Rightarrow> handler \<Rightarrow> 's world \<Rightarrow> 's outcome" where
  "PreferencesHandler_put svc = require_user (PreferencesHandler_put_body svc)"

subsection \<open>EditorPrerequisitesPage\<close>

definition EditorPrerequisitesPage_get_body ::
  "env \<Rightarrow> user_id \<Rightarrow> handler \<Rightarrow> 's world \<Rightarrow> 's outcome" where
  "EditorPrerequisitesPage_get_body cfg uid self w =
     (Inr (Rendered_Template ''profile/editor_prerequisites.html''
        (values_of self ++
           [''agreement'' \<mapsto> EDITOR_PREREQUISITES_AGREEMENT_value cfg,
            ''nav_mode'' \<mapsto> NAV_MODE_PROFILE cfg])), w)"

definition EditorPrerequisitesPage_get :: "env \<Rightarrow> handler \<Rightarrow> 's world \<Rightarrow> 's outcome" where
  "EditorPrerequisitesPage_get cfg = require_user (EditorPrerequisitesPage_get_body cfg)"

subsection \<open>EditorPrerequisitesHandler\<close>

definition EditorPrerequisitesHandler_get_body ::
  "'s user_services \<Rightarrow> user_id \<Rightarrow> handler \<Rightarrow> 's world \<Rightarrow> 's outcome" where
  "EditorPrerequisitesHandler_get_body svc uid self w =
     (case invoke (Get_user_settings uid) (get_user_settings svc uid) w of
        (Inl e, w') \<Rightarrow> (Inl e, w')
      | (Inr None, w') \<Rightarrow> (Inl AttributeError, w')
      | (Inr (Some settings), w') \<Rightarrow>
          (Inr (Rendered_Json
             [''has_agreed_to_terms'' \<mapsto> PBool (truthy (last_agreed_to_terms settings)),
              ''username'' \<mapsto> username settings]), w'))"

definition EditorPrerequisitesHandler_get ::
  "'s user_services \<Rightarrow> handler \<Rightarrow> 's world \<Rightarrow> 's outcome" where
  "EditorPrerequisitesHandler_get svc = require_user (EditorPrerequisitesHandler_get_body svc)"

definition license_terms_message :: message where
  "license_terms_message =
     Msg (''In order to edit explorations on this site, you will '' @
          ''need to accept the license terms.'')"

definition EditorPrerequisitesHandler_post_body ::
  "'s user_services \<Rightarrow> user_id \<Rightarrow> handler \<Rightarrow> 's world \<Rightarrow> 's outcome" where
  "EditorPrerequisitesHandler_post_body svc uid self w =
     (let uname = dict_get (payload self) ''username'';
          agreed_to_terms = dict_get (payload self) ''agreed_to_terms''
      in if \<not> isinstance_bool agreed_to_terms \<or> \<not> truthy agreed_to_terms then
           (Inl (InvalidInputException license_terms_message), w)
         else
           (case invoke (Record_agreement_to_terms uid) (record_agreement_to_terms svc uid) w of
              (Inl e, w1) \<Rightarrow> (Inl e, w1)
            | (Inr u, w1) \<Rightarrow>
                (case invoke (Get_username uid) (get_username svc uid) w1 of
                   (Inl e, w2) \<Rightarrow> (Inl e, w2)
                 | (Inr current, w2) \<Rightarrow>
                     if truthy current then (Inr (Rendered_Json Map.empty), w2)
                     else
                       (case invoke (Set_username uid uname) (set_username svc uid uname) w2 of
                          (Inl e, w3) \<Rightarrow> (Inl (reraise_validation_error e), w3)
                        | (Inr u', w3) \<Rightarrow> (Inr (Rendered_Json Map.empty), w3)))))"

definition EditorPrerequisitesHandler_post ::
  "'s user_services \<Rightarrow> handler \<Rightarrow> 's world \<Rightarrow> 's outcome" where
  "EditorPrerequisitesHandler_post svc = require_user (EditorPrerequisitesHandler_post_body svc)"

subsection \<open>UsernameCheckHandler\<close>

definition UsernameCheckHandler_post_body ::
  "'s user_services \<Rightarrow> user_id \<Rightarrow> handler \<Rightarrow> 's world \<Rightarrow> 's outcome" where
  "UsernameCheckHandler_post_body svc uid self w =
     (let uname = dict_get (payload self) ''username''
      in case invoke (Require_valid_username uname) (require_valid_username svc uname) w of
           (Inl e, w1) \<Rightarrow> (Inl (reraise_validation_error e), w1)
         | (Inr u, w1) \<Rightarrow>
             (case invoke (Is_username_taken uname) (is_username_taken svc uname) w1 of
                (Inl e, w2) \<Rightarrow> (Inl e, w2)
              | (Inr username_is_taken, w2) \<Rightarrow>
                  (Inr (Rendered_Json [''username_is_taken'' \<mapsto> PBool username_is_taken]), w2)))"

definition UsernameCheckHandler_post ::
  "'s user_services \<Rightarrow> handler \<Rightarrow> 's world \<Rightarrow> 's outcome" where
  "UsernameCheckHandler_post svc = require_user (UsernameCheckHandler_post_body svc)"

subsection \<open>The operations of the module\<close>

datatype operation =
    ProfilePage_GET string
  | PreferencesPage_GET
  | PreferencesHandler_GET
  | PreferencesHandler_PUT
  | EditorPrerequisitesPage_GET
  | EditorPrerequisitesHandler_GET
  | EditorPrerequisitesHandler_POST
  | UsernameCheckHandler_POST

fun run_operation ::
  "env \<Rightarrow> 's user_services \<Rightarrow> operation \<Rightarrow> handler \<Rightarrow> 's world \<Rightarrow> 's outcome" where
  "run_operation cfg svc (ProfilePage_GET uname) = ProfilePage_get cfg svc uname"
| "run_operation cfg svc PreferencesPage_GET = PreferencesPage_get cfg"
| "run_operation cfg svc PreferencesHandler_GET = PreferencesHandler_get svc"
| "run_operation cfg svc PreferencesHandler_PUT = PreferencesHandler_put svc"
| "run_operation cfg svc EditorPrerequisitesPage_GET = EditorPrerequisitesPage_get cfg"
| "run_operation cfg svc EditorPrerequisitesHandler_GET = EditorPrerequisitesHandler_get svc"
| "run_operation cfg svc EditorPrerequisitesHandler_POST = EditorPrerequisitesHandler_post svc"
| "run_operation cfg svc UsernameCheckHandler_POST = UsernameCheckHandler_post svc"

section \<open>A store of user settings\<close>

text \<open>
  The persistence of user settings and the bodies of the service functions are not part
  of this module. The following store implements the service as the spec describes it:
  one settings object per user id, read and updated by the named operations. What the
  spec leaves open is a parameter: the format validator \<open>valid\<close> (the message of the
  validation error, or \<open>None\<close> for a username it accepts), the message for a username
  that is taken, and the current time \<open>now\<close>.
\<close>

type_synonym user_store = "(user_id \<times> user_settings) list"

text \<open>
  Modelled from the spec: what an update or a read of the username does for a user
  without settings is not in the spec, which only says that failures of the
  persistence "propagate unhandled"; here such a call raises.
\<close>

definition user_not_found :: exn where
  "user_not_found = Exception ''User not found.''"

text \<open>
  Modelled from the spec: \<^verbatim>\<open>user_services.get_user_settings\<close> is missing; it reads the
  settings of a user ("returns JSON with the current user's bio and preferred language
  codes").
\<close>

definition store_get_user_settings :: "user_id \<Rightarrow> (user_store, user_settings option) service" where
  "store_get_user_settings uid s = (Inr (map_of s uid), s)"

text \<open>
  Modelled from the spec: \<^verbatim>\<open>user_services.get_user_settings_from_username\<close> is missing;
  it finds the settings with the given username, if any ("If username is empty or no
  matching user settings exist, fails with a not-found condition").
\<close>

definition store_get_user_settings_from_username ::
  "string \<Rightarrow> (user_store, user_settings option) service" where
  "store_get_user_settings_from_username uname s =
     (Inr (List.find (\<lambda>settings. username settings = PStr uname) (map snd s)), s)"

text \<open>
  Modelled from the spec: \<^verbatim>\<open>user_services.update_user_bio\<close> is missing; it is the
  "named update operation" that sets the attribute \<open>user_bio\<close> of the user's settings
  and changes nothing else ("partial updates").
\<close>

definition store_update_user_bio :: "user_id \<Rightarrow> pyval \<Rightarrow> (user_store, unit) service" where
  "store_update_user_bio uid data s =
     (case map_of s uid of
        None \<Rightarrow> (Inl user_not_found, s)
      | Some settings \<Rightarrow> (Inr (), AList.update uid (settings\<lparr>user_bio := data\<rparr>) s))"

text \<open>
  Modelled from the spec: \<^verbatim>\<open>user_services.update_preferred_language_codes\<close> is missing;
  it is the named update operation for the attribute \<open>preferred_language_codes\<close>.
\<close>

definition store_update_preferred_language_codes ::
  "user_id \<Rightarrow> pyval \<Rightarrow> (user_store, unit) service" where
  "store_update_preferred_language_codes uid data s =
     (case map_of s uid of
        None \<Rightarrow> (Inl user_not_found, s)
      | Some settings \<Rightarrow>
          (Inr (), AList.update uid (settings\<lparr>preferred_language_codes := data\<rparr>) s))"

text \<open>
  Modelled from the spec: \<^verbatim>\<open>user_services.record_agreement_to_terms\<close> is missing; it
  "records agreement to terms for the user (idempotent)": \<open>last_agreed_to_terms\<close> becomes
  the current time.
\<close>

definition store_record_agreement_to_terms :: "nat \<Rightarrow> user_id \<Rightarrow> (user_store, unit) service" where
  "store_record_agreement_to_terms now uid s =
     (case map_of s uid of
        None \<Rightarrow> (Inl user_not_found, s)
      | Some settings \<Rightarrow>
          (Inr (), AList.update uid (settings\<lparr>last_agreed_to_terms := PDatetime now\<rparr>) s))"

text \<open>
  Modelled from the spec: \<^verbatim>\<open>user_services.get_username\<close> is missing; it reads the
  username of the user ("If the user already has a username").
\<close>

definition store_get_username :: "user_id \<Rightarrow> (user_store, pyval) service" where
  "store_get_username uid s =
     (case map_of s uid of
        None \<Rightarrow> (Inl user_not_found, s)
      | Some settings \<Rightarrow> (Inr (username settings), s))"

text \<open>
  Modelled from the spec: \<^verbatim>\<open>UserSettings.require_valid_username\<close> is missing; it is the
  "static validator" of the format of a username, which raises a validation error. The
  format itself is the parameter \<open>valid\<close>.
\<close>

definition store_require_valid_username ::
  "(pyval \<Rightarrow> message option) \<Rightarrow> pyval \<Rightarrow> (user_store, unit) service" where
  "store_require_valid_username valid uname s =
     (case valid uname of
        Some m \<Rightarrow> (Inl (ValidationError m), s)
      | None \<Rightarrow> (Inr (), s))"

text \<open>
  Modelled from the spec: \<^verbatim>\<open>user_services.is_username_taken\<close> is missing; a username is
  taken when it "already exists among user settings".
\<close>

definition username_exists :: "pyval \<Rightarrow> user_store \<Rightarrow> bool" where
  "username_exists uname s = list_ex (\<lambda>settings. username settings = uname) (map snd s)"

definition store_is_username_taken :: "pyval \<Rightarrow> (user_store, bool) service" where
  "store_is_username_taken uname s = (Inr (username_exists uname s), s)"

text \<open>
  Modelled from the spec: \<^verbatim>\<open>user_services.set_username\<close> is missing; it sets the
  username of the user, and fails with a validation error for a "malformed/taken
  username".
\<close>

definition store_set_username ::
  "(pyval \<Rightarrow> message option) \<Rightarrow> message \<Rightarrow> user_id \<Rightarrow> pyval \<Rightarrow> (user_store, unit) service" where
  "store_set_username valid taken uid uname s =
     (case map_of s uid of
        None \<Rightarrow> (Inl user_not_found, s)
      | Some settings \<Rightarrow>
          (case valid uname of
             Some m \<Rightarrow> (Inl (ValidationError m), s)
           | None \<Rightarrow>
               if username_exists uname s then (Inl (ValidationError taken), s)
               else (Inr (), AList.update uid (settings\<lparr>username := uname\<rparr>) s)))"

text \<open>The service over the store.\<close>

definition store_services ::
  "(pyval \<Rightarrow> message option) \<Rightarrow> message \<Rightarrow> nat \<Rightarrow> user_store user_services" where
  "store_services valid taken now =
     \<lparr>get_user_settings_from_username = store_get_user_settings_from_username,
      get_user_settings = store_get_user_settings,
      update_user_bio = store_update_user_bio,
      update_preferred_language_codes = store_update_preferred_language_codes,
      record_agreement_to_terms = store_record_agreement_to_terms now,
      get_username = store_get_username,
      set_username = store_set_username valid taken,
      require_valid_username = store_require_valid_username valid,
      is_username_taken = store_is_username_taken\<rparr>"

text \<open>
  The username and the time of agreement stored for a user (\<open>None\<close> when the user has
  no settings).
\<close>

definition stored_username :: "user_store \<Rightarrow> user_id \<Rightarrow> pyval option" where
  "stored_username s uid = map_option username (map_of s uid)"

definition stored_last_agreed_to_terms :: "user_store \<Rightarrow> user_id \<Rightarrow> pyval option" where
  "stored_last_agreed_to_terms s uid = map_option last_agreed_to_terms (map_of s uid)"

section \<open>Example data\<close>

text \<open>
  A store with a user who has finished the onboarding and one who has not, a format
  validator that accepts the non-empty strings, and requests by a logged-in user.
\<close>

definition alice_settings :: user_settings where
  "alice_settings =
     \<lparr>username = PStr ''alice'', user_bio = PStr ''hello'',
      preferred_language_codes = PList [PStr ''en''], last_agreed_to_terms = PDatetime 3\<rparr>"

definition newcomer_settings :: user_settings where
  "newcomer_settings =
     \<lparr>username = PNone, user_bio = PStr [],
      preferred_language_codes = PList [], last_agreed_to_terms = PNone\<rparr>"

definition example_store :: user_store where
  "example_store = [(''uid_alice'', alice_settings), (''uid_new'', newcomer_settings)]"

definition newcomer_agreed_store :: user_store where
  "newcomer_agreed_store =
     [(''uid_alice'', alice_settings),
      (''uid_new'', newcomer_settings\<lparr>last_agreed_to_terms := PDatetime 7\<rparr>)]"

definition example_world :: "user_store world" where
  "example_world = \<lparr>store = example_store, calls = []\<rparr>"

fun example_valid :: "pyval \<Rightarrow> message option" where
  "example_valid (PStr (c # cs)) = None"
| "example_valid v = Some (Msg ''Empty username supplied.'')"

definition example_services :: "user_store user_services" where
  "example_services = store_services example_valid (Msg ''This username is taken.'') 7"

definition example_env :: env where
  "example_env =
     \<lparr>NAV_MODE_PROFILE = PStr ''profile'',
      ALL_LANGUAGE_CODES = [\<lparr>code = PStr ''en'', description = PStr ''English''\<rparr>],
      get_short_language_description = (\<lambda>d. d),
      EDITOR_PREREQUISITES_AGREEMENT_value = PStr ''agreement''\<rparr>"

definition request :: "user_id \<Rightarrow> pydict \<Rightarrow> handler" where
  "request uid body = \<lparr>user_id = Some uid, payload = body, values_of = Map.empty\<rparr>"

definition anonymous_request :: handler where
  "anonymous_request = \<lparr>user_id = None, payload = Map.empty, values_of = Map.empty\<rparr>"

section \<open>Properties\<close>

subsection \<open>Auxiliary facts\<close>

lemma require_user_Some:
  "user_id self = Some uid \<Longrightarrow> require_user method self w = method uid self w"
  by (simp add: require_user_def)

lemma store_services_simps [simp]:
  "get_user_settings_from_username (store_services valid taken now) =
     store_get_user_settings_from_username"
  "get_user_settings (store_services valid taken now) = store_get_user_settings"
  "update_user_bio (store_services valid taken now) = store_update_user_bio"
  "update_preferred_language_codes (store_services valid taken now) =
     store_update_preferred_language_codes"
  "record_agreement_to_terms (store_services valid taken now) =
     store_record_agreement_to_terms now"
  "get_username (store_services valid taken now) = store_get_username"
  "set_username (store_services valid taken now) = store_set_username valid taken"
  "require_valid_username (store_services valid taken now) = store_require_valid_username valid"
  "is_username_taken (store_services valid taken now) = store_is_username_taken"
  by (simp_all add: store_services_def)

lemma stored_username_update:
  "stored_username (AList.update k v s) u =
     (if u = k then Some (username v) else stored_username s u)"
  by (simp add: stored_username_def update_conv')

text \<open>What each service function of the store does to a username.\<close>

lemma store_update_user_bio_username:
  "store_update_user_bio uid d s = (r, s') \<Longrightarrow> stored_username s' = stored_username s"
  by (auto simp: store_update_user_bio_def stored_username_update fun_eq_iff
      split: option.splits) (simp add: stored_username_def)

lemma store_update_preferred_language_codes_username:
  "store_update_preferred_language_codes uid d s = (r, s') \<Longrightarrow>
   stored_username s' = stored_username s"
  by (auto simp: store_update_preferred_language_codes_def stored_username_update fun_eq_iff
      split: option.splits) (simp add: stored_username_def)

lemma store_record_agreement_to_terms_username:
  "store_record_agreement_to_terms now uid s = (r, s') \<Longrightarrow>
   stored_username s' = stored_username s"
  by (auto simp: store_record_agreement_to_terms_def stored_username_update fun_eq_iff
      split: option.splits) (simp add: stored_username_def)

lemma store_set_username_other:
  "store_set_username valid taken uid n s = (r, s') \<Longrightarrow>
   \<forall>u. u \<noteq> uid \<longrightarrow> stored_username s' u = stored_username s u"
  by (auto simp: store_set_username_def stored_username_update split: option.splits if_splits)

lemma store_get_username_eq:
  "store_get_username uid s =
     (case stored_username s uid of None \<Rightarrow> (Inl user_not_found, s) | Some n \<Rightarrow> (Inr n, s))"
  by (simp add: store_get_username_def stored_username_def split: option.splits)

lemma post_keeps_username:
  assumes "stored_username (store w) u = Some n" and "truthy n"
  shows "stored_username
           (store (snd (EditorPrerequisitesHandler_post_body (store_services valid taken now)
                          uid self w))) u = Some n"
proof (cases "\<not> isinstance_bool (dict_get (payload self) ''agreed_to_terms'') \<or>
              \<not> truthy (dict_get (payload self) ''agreed_to_terms'')")
  case True
  then show ?thesis
    using assms by (auto simp: EditorPrerequisitesHandler_post_body_def Let_def)
next
  case False
  show ?thesis
  proof (cases "u = uid")
    case True
    with assms False show ?thesis
      by (auto simp: EditorPrerequisitesHandler_post_body_def Let_def invoke_def
          store_get_username_eq split: sum.splits prod.splits
          dest: store_record_agreement_to_terms_username)
  next
    case other: False
    obtain r1 s1 where rec: "store_record_agreement_to_terms now uid (store w) = (r1, s1)"
      by force
    obtain r3 s3 where set:
      "store_set_username valid taken uid (dict_get (payload self) ''username'') s1 = (r3, s3)"
      by force
    have u1: "stored_username s1 u = Some n"
      using store_record_agreement_to_terms_username [OF rec] assms by simp
    have u3: "stored_username s3 u = Some n"
      using store_set_username_other [OF set] other u1 by simp
    have "store (snd (EditorPrerequisitesHandler_post_body (store_services valid taken now)
                        uid self w)) \<in> {s1, s3}"
      using False rec set
      by (auto simp: EditorPrerequisitesHandler_post_body_def Let_def invoke_def
          store_get_username_def split: sum.splits option.splits)
    then show ?thesis
      using u1 u3 by auto
  qed
qed

lemma run_operation_keeps_username:
  assumes "stored_username (store w) u = Some n" and "truthy n"
  shows "stored_username
           (store (snd (run_operation cfg (store_services valid taken now) op self w))) u = Some n"
proof (cases op)
  case (ProfilePage_GET uname)
  then show ?thesis using assms
    by (auto simp: ProfilePage_get_def invoke_def store_get_user_settings_from_username_def
        split: option.splits)
next
  case PreferencesPage_GET
  then show ?thesis using assms
    by (auto simp: PreferencesPage_get_def PreferencesPage_get_body_def require_user_def
        split: option.splits)
next
  case PreferencesHandler_GET
  then show ?thesis using assms
    by (auto simp: PreferencesHandler_get_def PreferencesHandler_get_body_def require_user_def
        invoke_def store_get_user_settings_def split: option.splits)
next
  case PreferencesHandler_PUT
  have "stored_username (store (snd (PreferencesHandler_put_body
          (store_services valid taken now) uid self w))) u = Some n" for uid
    using assms
    by (auto simp: PreferencesHandler_put_body_def Let_def invoke_def
        split: prod.splits sum.splits
        dest: store_update_user_bio_username store_update_preferred_language_codes_username)
  with PreferencesHandler_PUT assms show ?thesis
    by (auto simp: PreferencesHandler_put_def require_user_def split: option.splits)
next
  case EditorPrerequisitesPage_GET
  then show ?thesis using assms
    by (auto simp: EditorPrerequisitesPage_get_def EditorPrerequisitesPage_get_body_def
        require_user_def split: option.splits)
next
  case EditorPrerequisitesHandler_GET
  then show ?thesis using assms
    by (auto simp: EditorPrerequisitesHandler_get_def EditorPrerequisitesHandler_get_body_def
        require_user_def invoke_def store_get_user_settings_def split: option.splits)
next
  case EditorPrerequisitesHandler_POST
  then show ?thesis using assms post_keeps_username [OF assms]
    by (auto simp: EditorPrerequisitesHandler_post_def require_user_def split: option.splits)
next
  case UsernameCheckHandler_POST
  then show ?thesis using assms
    by (auto simp: UsernameCheckHandler_post_def UsernameCheckHandler_post_body_def
        require_user_def invoke_def Let_def store_require_valid_username_def
        store_is_username_taken_def split: option.splits)
qed

lemma post_with_username_succeeds:
  assumes "stored_username (store w) u = Some n" and "truthy n"
    and "user_id self = Some u"
    and "dict_get (payload self) ''agreed_to_terms'' = PBool True"
  shows "fst (EditorPrerequisitesHandler_post (store_services valid taken now) self w) =
           Inr (Rendered_Json Map.empty)"
proof -
  obtain settings where settings: "map_of (store w) u = Some settings" "username settings = n"
    using assms(1) by (auto simp: stored_username_def)
  show ?thesis
    using assms(2,4) settings
    by (simp add: EditorPrerequisitesHandler_post_def require_user_Some [OF assms(3)]
        EditorPrerequisitesHandler_post_body_def Let_def invoke_def
        store_record_agreement_to_terms_def store_get_username_def update_conv')
qed

subsection \<open>The username, once set, stays\<close>

text \<open>
  Claim C1. Let a user have a username that is set (a value that the test
  \<^verbatim>\<open>if user_services.get_username(self.user_id)\<close> takes as true). Then no operation of
  the module, run by anybody with any payload, changes the username stored for that
  user; and a POST of that user to EditorPrerequisitesHandler with
  \<open>agreed_to_terms = true\<close> and any submitted username answers with the empty JSON
  object, not with an error. The service is the store of user settings, for every
  format validator, message and time.
\<close>

theorem C1_username_immutable:
  assumes "stored_username (store w) u = Some n" and "truthy n"
  shows "(\<forall>op self. stored_username
            (store (snd (run_operation cfg (store_services valid taken now) op self w))) u =
              Some n) \<and>
         (\<forall>self. user_id self = Some u \<and>
                 dict_get (payload self) ''agreed_to_terms'' = PBool True \<longrightarrow>
            fst (EditorPrerequisitesHandler_post (store_services valid taken now) self w) =
              Inr (Rendered_Json Map.empty))"
  using run_operation_keeps_username [OF assms] post_with_username_succeeds [OF assms]
  by blast

theorem C1_username_immutable_witness:
  "stored_username (store example_world) ''uid_alice'' = Some (PStr ''alice'') \<and>
   truthy (PStr ''alice'') \<and>
   stored_username
     (store (snd (run_operation example_env example_services EditorPrerequisitesHandler_POST
        (request ''uid_alice'' [''username'' \<mapsto> PStr ''bob'', ''agreed_to_terms'' \<mapsto> PBool True])
        example_world))) ''uid_alice'' = Some (PStr ''alice'') \<and>
   fst (EditorPrerequisitesHandler_post example_services
        (request ''uid_alice'' [''username'' \<mapsto> PStr ''bob'', ''agreed_to_terms'' \<mapsto> PBool True])
        example_world) = Inr (Rendered_Json Map.empty)"
proof -
  have set: "stored_username (store example_world) ''uid_alice'' = Some (PStr ''alice'')"
    by (simp add: example_services_def example_world_def example_store_def alice_settings_def
        newcomer_settings_def request_def dict_get_def stored_username_def)
  have nonempty: "truthy (PStr ''alice'')"
    by simp
  have req: "user_id (request ''uid_alice''
                [''username'' \<mapsto> PStr ''bob'', ''agreed_to_terms'' \<mapsto> PBool True]) =
               Some ''uid_alice'' \<and>
             dict_get (payload (request ''uid_alice''
                [''username'' \<mapsto> PStr ''bob'', ''agreed_to_terms'' \<mapsto> PBool True]))
               ''agreed_to_terms'' = PBool True"
    by (simp add: example_services_def example_world_def example_store_def alice_settings_def
        newcomer_settings_def request_def dict_get_def)
  note fact = C1_username_immutable [OF set nonempty, of example_env example_valid
      "Msg ''This username is taken.''" 7]
  show ?thesis
    using set nonempty
      fact [THEN conjunct1, rule_format, of EditorPrerequisitesHandler_POST
        "request ''uid_alice'' [''username'' \<mapsto> PStr ''bob'', ''agreed_to_terms'' \<mapsto> PBool True]"]
      fact [THEN conjunct2, rule_format, OF req]
    by (simp add: example_services_def)
qed

subsection \<open>The terms gate\<close>

text \<open>
  Claim C2. A POST of a logged-in user to EditorPrerequisitesHandler whose
  \<open>agreed_to_terms\<close> is anything but the boolean \<open>true\<close> (false, missing, or not a
  boolean) raises the invalid-input exception and leaves the world as it was: no
  service function is called, so no agreement is recorded. When \<open>agreed_to_terms\<close> is
  the boolean \<open>true\<close>, \<open>record_agreement_to_terms\<close> is applied for that user to the
  store of the request, whatever the username in the payload or in the store: it is
  the first call, only the username calls can follow it, an exception it raises ends
  the request with the store it left, and when it returns, the username handling
  (\<open>get_username\<close>, then \<open>set_username\<close> if no username is set) runs on the store that
  it left.
\<close>

theorem C2_terms_gate:
  assumes "user_id self = Some uid"
  shows "(dict_get (payload self) ''agreed_to_terms'' \<noteq> PBool True \<longrightarrow>
            EditorPrerequisitesHandler_post svc self w =
              (Inl (InvalidInputException license_terms_message), w)) \<and>
         (dict_get (payload self) ''agreed_to_terms'' = PBool True \<longrightarrow>
            (\<exists>rest. calls (snd (EditorPrerequisitesHandler_post svc self w)) =
                      calls w @ Record_agreement_to_terms uid # rest \<and>
                    rest \<in> {[], [Get_username uid],
                             [Get_username uid,
                              Set_username uid (dict_get (payload self) ''username'')]}) \<and>
            (\<forall>e s1. record_agreement_to_terms svc uid (store w) = (Inl e, s1) \<longrightarrow>
               EditorPrerequisitesHandler_post svc self w =
                 (Inl e, \<lparr>store = s1, calls = calls w @ [Record_agreement_to_terms uid]\<rparr>)) \<and>
            (\<forall>s1. record_agreement_to_terms svc uid (store w) = (Inr (), s1) \<longrightarrow>
               store (snd (EditorPrerequisitesHandler_post svc self w)) =
                 (case get_username svc uid s1 of
                    (Inl e, s2) \<Rightarrow> s2
                  | (Inr current, s2) \<Rightarrow>
                      if truthy current then s2
                      else snd (set_username svc uid (dict_get (payload self) ''username'') s2))))"
proof (intro conjI impI)
  assume "dict_get (payload self) ''agreed_to_terms'' \<noteq> PBool True"
  then have "\<not> isinstance_bool (dict_get (payload self) ''agreed_to_terms'') \<or>
             \<not> truthy (dict_get (payload self) ''agreed_to_terms'')"
    by (cases "dict_get (payload self) ''agreed_to_terms''") auto
  then show "EditorPrerequisitesHandler_post svc self w =
              (Inl (InvalidInputException license_terms_message), w)"
    by (auto simp: EditorPrerequisitesHandler_post_def require_user_Some [OF assms]
        EditorPrerequisitesHandler_post_body_def Let_def)
next
  assume "dict_get (payload self) ''agreed_to_terms'' = PBool True"
  then show "\<exists>rest. calls (snd (EditorPrerequisitesHandler_post svc self w)) =
                      calls w @ Record_agreement_to_terms uid # rest \<and>
                    rest \<in> {[], [Get_username uid],
                             [Get_username uid,
                              Set_username uid (dict_get (payload self) ''username'')]}"
    by (auto simp: EditorPrerequisitesHandler_post_def require_user_Some [OF assms]
        EditorPrerequisitesHandler_post_body_def Let_def invoke_def
        split: prod.splits sum.splits)
next
  assume "dict_get (payload self) ''agreed_to_terms'' = PBool True"
  then show "\<forall>e s1. record_agreement_to_terms svc uid (store w) = (Inl e, s1) \<longrightarrow>
               EditorPrerequisitesHandler_post svc self w =
                 (Inl e, \<lparr>store = s1, calls = calls w @ [Record_agreement_to_terms uid]\<rparr>)"
    by (simp add: EditorPrerequisitesHandler_post_def require_user_Some [OF assms]
        EditorPrerequisitesHandler_post_body_def Let_def invoke_def)
next
  assume "dict_get (payload self) ''agreed_to_terms'' = PBool True"
  then show "\<forall>s1. record_agreement_to_terms svc uid (store w) = (Inr (), s1) \<longrightarrow>
               store (snd (EditorPrerequisitesHandler_post svc self w)) =
                 (case get_username svc uid s1 of
                    (Inl e, s2) \<Rightarrow> s2
                  | (Inr current, s2) \<Rightarrow>
                      if truthy current then s2
                      else snd (set_username svc uid (dict_get (payload self) ''username'') s2))"
    by (auto simp: EditorPrerequisitesHandler_post_def require_user_Some [OF assms]
        EditorPrerequisitesHandler_post_body_def Let_def invoke_def
        split: prod.splits sum.splits)
qed

theorem C2_terms_gate_witness:
  "user_id (request ''uid_new'' [''agreed_to_terms'' \<mapsto> PStr ''yes'']) = Some ''uid_new'' \<and>
   dict_get (payload (request ''uid_new'' [''agreed_to_terms'' \<mapsto> PStr ''yes'']))
     ''agreed_to_terms'' \<noteq> PBool True \<and>
   EditorPrerequisitesHandler_post example_services
     (request ''uid_new'' [''agreed_to_terms'' \<mapsto> PStr ''yes'']) example_world =
     (Inl (InvalidInputException license_terms_message), example_world) \<and>
   dict_get (payload (request ''uid_new'' [''username'' \<mapsto> PStr ''bob'', ''agreed_to_terms'' \<mapsto> PBool True])) ''agreed_to_terms'' = PBool True \<and>
   record_agreement_to_terms example_services ''uid_new'' (store example_world) =
     (Inr (), newcomer_agreed_store) \<and>
   calls (snd (EditorPrerequisitesHandler_post example_services (request ''uid_new'' [''username'' \<mapsto> PStr ''bob'', ''agreed_to_terms'' \<mapsto> PBool True]) example_world)) =
     [Record_agreement_to_terms ''uid_new'', Get_username ''uid_new'',
      Set_username ''uid_new'' (PStr ''bob'')] \<and>
   stored_last_agreed_to_terms (store example_world) ''uid_new'' = Some PNone \<and>
   stored_last_agreed_to_terms
     (store (snd (EditorPrerequisitesHandler_post example_services (request ''uid_new'' [''username'' \<mapsto> PStr ''bob'', ''agreed_to_terms'' \<mapsto> PBool True]) example_world)))
     ''uid_new'' = Some (PDatetime 7)"
proof -
  have refused: "user_id (request ''uid_new'' [''agreed_to_terms'' \<mapsto> PStr ''yes'']) =
                   Some ''uid_new''"
    by (simp add: request_def)
  have accepted: "user_id (request ''uid_new'' [''username'' \<mapsto> PStr ''bob'', ''agreed_to_terms'' \<mapsto> PBool True]) = Some ''uid_new''"
    by (simp add: request_def)
  show ?thesis
    using C2_terms_gate [where svc = example_services and w = example_world, OF refused]
      C2_terms_gate [where svc = example_services and w = example_world, OF accepted]
    by (simp add: example_services_def example_world_def example_store_def alice_settings_def
        newcomer_settings_def newcomer_agreed_store_def request_def dict_get_def
        store_record_agreement_to_terms_def store_get_username_def
        store_set_username_def username_exists_def stored_last_agreed_to_terms_def
        require_user_def invoke_def Let_def
        EditorPrerequisitesHandler_post_def EditorPrerequisitesHandler_post_body_def update_conv')
qed

subsection \<open>Setting the username\<close>

text \<open>
  Claim C3. A logged-in user posts to EditorPrerequisitesHandler with
  \<open>agreed_to_terms = true\<close>, the agreement is recorded and the user has no username
  yet. If \<open>set_username\<close> raises a validation error, the handler raises the
  invalid-input exception that carries that error's message; any other exception of
  \<open>set_username\<close> is not caught; if \<open>set_username\<close> returns, the answer is the empty
  JSON object.
\<close>

theorem C3_set_username_outcome:
  assumes auth: "user_id self = Some uid"
    and agreed: "dict_get (payload self) ''agreed_to_terms'' = PBool True"
    and recorded: "record_agreement_to_terms svc uid (store w) = (Inr (), s1)"
    and current: "get_username svc uid s1 = (Inr current, s2)"
    and unset: "\<not> truthy current"
    and attempt: "set_username svc uid (dict_get (payload self) ''username'') s2 = (r, s3)"
  shows "(\<forall>m. r = Inl (ValidationError m) \<longrightarrow>
            fst (EditorPrerequisitesHandler_post svc self w) = Inl (InvalidInputException m)) \<and>
         (\<forall>e. r = Inl e \<and> (\<forall>m. e \<noteq> ValidationError m) \<longrightarrow>
            fst (EditorPrerequisitesHandler_post svc self w) = Inl e) \<and>
         (r = Inr () \<longrightarrow>
            fst (EditorPrerequisitesHandler_post svc self w) = Inr (Rendered_Json Map.empty))"
proof -
  have post: "fst (EditorPrerequisitesHandler_post svc self w) =
      (case r of Inl e \<Rightarrow> Inl (reraise_validation_error e)
               | Inr u \<Rightarrow> Inr (Rendered_Json Map.empty))"
    using agreed recorded current unset attempt
    by (simp add: EditorPrerequisitesHandler_post_def require_user_Some [OF auth]
        EditorPrerequisitesHandler_post_body_def invoke_def Let_def split: sum.splits)
  have other: "reraise_validation_error e = e" if "\<forall>m. e \<noteq> ValidationError m" for e
    using that by (cases e) simp_all
  show ?thesis
    by (simp add: post other)
qed

theorem C3_set_username_outcome_witness:
  "set_username example_services ''uid_new'' (PStr []) newcomer_agreed_store =
     (Inl (ValidationError (Msg ''Empty username supplied.'')), newcomer_agreed_store) \<and>
   fst (EditorPrerequisitesHandler_post example_services
          (request ''uid_new'' [''username'' \<mapsto> PStr [], ''agreed_to_terms'' \<mapsto> PBool True]) example_world) =
     Inl (InvalidInputException (Msg ''Empty username supplied.'')) \<and>
   fst (set_username example_services ''uid_new'' (PStr ''bob'') newcomer_agreed_store) =
     Inr () \<and>
   fst (EditorPrerequisitesHandler_post example_services
          (request ''uid_new'' [''username'' \<mapsto> PStr ''bob'', ''agreed_to_terms'' \<mapsto> PBool True]) example_world) =
     Inr (Rendered_Json Map.empty)"
proof -
  have auth: "user_id (request ''uid_new'' body) = Some ''uid_new''" for body
    by (simp add: request_def)
  have agreed1: "dict_get (payload (request ''uid_new'' [''username'' \<mapsto> PStr [], ''agreed_to_terms'' \<mapsto> PBool True])) ''agreed_to_terms'' = PBool True"
    and agreed2: "dict_get (payload (request ''uid_new'' [''username'' \<mapsto> PStr ''bob'', ''agreed_to_terms'' \<mapsto> PBool True])) ''agreed_to_terms'' = PBool True"
    by (simp_all add: example_services_def example_world_def example_store_def alice_settings_def
        newcomer_settings_def request_def dict_get_def newcomer_agreed_store_def)
  have recorded: "record_agreement_to_terms example_services ''uid_new'' (store example_world) =
                    (Inr (), newcomer_agreed_store)"
    by (simp add: example_services_def example_world_def example_store_def alice_settings_def
        newcomer_settings_def request_def dict_get_def newcomer_agreed_store_def store_record_agreement_to_terms_def store_get_username_def
        store_set_username_def username_exists_def)
  have current: "get_username example_services ''uid_new'' newcomer_agreed_store =
                   (Inr PNone, newcomer_agreed_store)"
    by (simp add: example_services_def example_world_def example_store_def alice_settings_def
        newcomer_settings_def request_def dict_get_def newcomer_agreed_store_def store_record_agreement_to_terms_def store_get_username_def
        store_set_username_def username_exists_def)
  have unset: "\<not> truthy PNone"
    by simp
  have attempt1: "set_username example_services ''uid_new''
                    (dict_get (payload (request ''uid_new'' [''username'' \<mapsto> PStr [], ''agreed_to_terms'' \<mapsto> PBool True])) ''username'') newcomer_agreed_store =
                    (Inl (ValidationError (Msg ''Empty username supplied.'')),
                     newcomer_agreed_store)"
    by (simp add: example_services_def example_world_def example_store_def alice_settings_def
        newcomer_settings_def request_def dict_get_def newcomer_agreed_store_def store_record_agreement_to_terms_def store_get_username_def
        store_set_username_def username_exists_def)
  have attempt2: "set_username example_services ''uid_new''
                    (dict_get (payload (request ''uid_new'' [''username'' \<mapsto> PStr ''bob'', ''agreed_to_terms'' \<mapsto> PBool True])) ''username'') newcomer_agreed_store =
                    (Inr (),
                     [(''uid_alice'', alice_settings),
                      (''uid_new'', newcomer_settings
                         \<lparr>username := PStr ''bob'', last_agreed_to_terms := PDatetime 7\<rparr>)])"
    by (simp add: example_services_def example_world_def example_store_def alice_settings_def
        newcomer_settings_def request_def dict_get_def newcomer_agreed_store_def store_record_agreement_to_terms_def store_get_username_def
        store_set_username_def username_exists_def)
  show ?thesis
    using C3_set_username_outcome [OF auth agreed1 recorded current unset attempt1]
      C3_set_username_outcome [OF auth agreed2 recorded current unset attempt2]
      attempt1 attempt2
    by (simp add: example_services_def example_world_def example_store_def alice_settings_def
        newcomer_settings_def request_def dict_get_def newcomer_agreed_store_def)
qed

subsection \<open>Updating the preferences\<close>

text \<open>
  Claim C4. A PUT of a logged-in user to PreferencesHandler calls \<open>update_user_bio\<close>
  with the payload's \<open>data\<close> when \<open>update_type\<close> is \<open>user_bio\<close> (that call alone, and
  the store is the one it leaves), calls \<open>update_preferred_language_codes\<close> with that
  data when \<open>update_type\<close> is \<open>preferred_language_codes\<close>, and for every other
  \<open>update_type\<close>, a missing one included, raises the invalid-input exception with the
  world unchanged: no update is called.
\<close>

theorem C4_update_type_dispatch:
  assumes auth: "user_id self = Some uid"
  shows "(dict_get (payload self) ''update_type'' = PStr ''user_bio'' \<longrightarrow>
            calls (snd (PreferencesHandler_put svc self w)) =
              calls w @ [Update_user_bio uid (dict_get (payload self) ''data'')] \<and>
            store (snd (PreferencesHandler_put svc self w)) =
              snd (update_user_bio svc uid (dict_get (payload self) ''data'') (store w))) \<and>
         (dict_get (payload self) ''update_type'' = PStr ''preferred_language_codes'' \<longrightarrow>
            calls (snd (PreferencesHandler_put svc self w)) =
              calls w @ [Update_preferred_language_codes uid (dict_get (payload self) ''data'')] \<and>
            store (snd (PreferencesHandler_put svc self w)) =
              snd (update_preferred_language_codes svc uid
                     (dict_get (payload self) ''data'') (store w))) \<and>
         (dict_get (payload self) ''update_type'' \<noteq> PStr ''user_bio'' \<and>
          dict_get (payload self) ''update_type'' \<noteq> PStr ''preferred_language_codes'' \<longrightarrow>
            PreferencesHandler_put svc self w =
              (Inl (InvalidInputException
                      (Msg_format ''Invalid update type: %s''
                         (dict_get (payload self) ''update_type''))), w))"
  by (auto simp: PreferencesHandler_put_def require_user_Some [OF auth]
      PreferencesHandler_put_body_def invoke_def Let_def split: prod.splits sum.splits)

theorem C4_update_type_dispatch_witness:
  "calls (snd (PreferencesHandler_put example_services
      (request ''uid_alice'' [''update_type'' \<mapsto> PStr ''user_bio'', ''data'' \<mapsto> PStr ''new bio''])
      example_world)) = [Update_user_bio ''uid_alice'' (PStr ''new bio'')] \<and>
   calls (snd (PreferencesHandler_put example_services
      (request ''uid_alice''
         [''update_type'' \<mapsto> PStr ''preferred_language_codes'', ''data'' \<mapsto> PList [PStr ''fr'']])
      example_world)) = [Update_preferred_language_codes ''uid_alice'' (PList [PStr ''fr''])] \<and>
   PreferencesHandler_put example_services
      (request ''uid_alice'' [''data'' \<mapsto> PStr ''new bio'']) example_world =
     (Inl (InvalidInputException (Msg_format ''Invalid update type: %s'' PNone)), example_world)"
proof -
  have auth: "user_id (request ''uid_alice'' body) = Some ''uid_alice''" for body
    by (simp add: request_def)
  show ?thesis
    using C4_update_type_dispatch [OF auth, of
        "[''update_type'' \<mapsto> PStr ''user_bio'', ''data'' \<mapsto> PStr ''new bio'']"
        example_services example_world]
      C4_update_type_dispatch [OF auth, of
        "[''update_type'' \<mapsto> PStr ''preferred_language_codes'', ''data'' \<mapsto> PList [PStr ''fr'']]"
        example_services example_world]
      C4_update_type_dispatch [OF auth, of "[''data'' \<mapsto> PStr ''new bio'']"
        example_services example_world]
    by (simp add: example_services_def example_world_def example_store_def alice_settings_def
        newcomer_settings_def request_def dict_get_def)
qed

subsection \<open>The public profile page\<close>

text \<open>
  Claim C5. A GET to ProfilePage raises the not-found exception when the username of
  the path is empty, and when the service has no user settings for that username;
  when the service returns settings, the handler renders the profile template with
  the navigation mode and the bio of those settings. The handler writes nothing: with
  an empty username the world is untouched, and otherwise the one service call is the
  lookup and the store after the request is the store that the lookup left. On the
  store of user settings this reads: the request leaves the store as it was, it is
  answered with not-found when no stored settings have that username, and otherwise
  with the bio of stored settings that have it.
\<close>

theorem C5_profile_page:
  "(uname = [] \<longrightarrow>
      ProfilePage_get cfg svc uname self w = (Inl PageNotFoundException, w)) \<and>
   (uname \<noteq> [] \<longrightarrow>
      (\<forall>s'. get_user_settings_from_username svc uname (store w) = (Inr None, s') \<longrightarrow>
         fst (ProfilePage_get cfg svc uname self w) = Inl PageNotFoundException) \<and>
      (\<forall>settings s'.
         get_user_settings_from_username svc uname (store w) = (Inr (Some settings), s') \<longrightarrow>
         (\<exists>vals. fst (ProfilePage_get cfg svc uname self w) =
                    Inr (Rendered_Template ''profile/profile.html'' vals) \<and>
                 vals ''nav_mode'' = Some (NAV_MODE_PROFILE cfg) \<and>
                 vals ''user_bio'' = Some (user_bio settings))) \<and>
      snd (ProfilePage_get cfg svc uname self w) =
        \<lparr>store = snd (get_user_settings_from_username svc uname (store w)),
         calls = calls w @ [Get_user_settings_from_username uname]\<rparr>) \<and>
   (calls (snd (ProfilePage_get cfg svc uname self w)) = calls w \<or>
    calls (snd (ProfilePage_get cfg svc uname self w)) =
      calls w @ [Get_user_settings_from_username uname]) \<and>
   store (snd (ProfilePage_get cfg (store_services valid taken now) uname self ws)) =
     store ws \<and>
   (uname \<noteq> [] \<and> \<not> (\<exists>settings \<in> snd ` set (store ws). username settings = PStr uname) \<longrightarrow>
      fst (ProfilePage_get cfg (store_services valid taken now) uname self ws) =
        Inl PageNotFoundException) \<and>
   (uname \<noteq> [] \<and> (\<exists>settings \<in> snd ` set (store ws). username settings = PStr uname) \<longrightarrow>
      (\<exists>settings \<in> snd ` set (store ws).
         username settings = PStr uname \<and>
         (\<exists>vals. fst (ProfilePage_get cfg (store_services valid taken now) uname self ws) =
                    Inr (Rendered_Template ''profile/profile.html'' vals) \<and>
                 vals ''nav_mode'' = Some (NAV_MODE_PROFILE cfg) \<and>
                 vals ''user_bio'' = Some (user_bio settings))))"
proof -
  have any_service:
    "(uname = [] \<longrightarrow>
        ProfilePage_get cfg svc uname self w = (Inl PageNotFoundException, w)) \<and>
     (uname \<noteq> [] \<longrightarrow>
        (\<forall>s'. get_user_settings_from_username svc uname (store w) = (Inr None, s') \<longrightarrow>
           fst (ProfilePage_get cfg svc uname self w) = Inl PageNotFoundException) \<and>
        (\<forall>settings s'.
           get_user_settings_from_username svc uname (store w) = (Inr (Some settings), s') \<longrightarrow>
           (\<exists>vals. fst (ProfilePage_get cfg svc uname self w) =
                      Inr (Rendered_Template ''profile/profile.html'' vals) \<and>
                   vals ''nav_mode'' = Some (NAV_MODE_PROFILE cfg) \<and>
                   vals ''user_bio'' = Some (user_bio settings))) \<and>
        snd (ProfilePage_get cfg svc uname self w) =
          \<lparr>store = snd (get_user_settings_from_username svc uname (store w)),
           calls = calls w @ [Get_user_settings_from_username uname]\<rparr>) \<and>
     (calls (snd (ProfilePage_get cfg svc uname self w)) = calls w \<or>
      calls (snd (ProfilePage_get cfg svc uname self w)) =
        calls w @ [Get_user_settings_from_username uname])"
    by (auto simp: ProfilePage_get_def invoke_def split: prod.splits sum.splits option.splits)
  have unchanged:
    "store (snd (ProfilePage_get cfg (store_services valid taken now) uname self ws)) = store ws"
    by (auto simp: ProfilePage_get_def invoke_def store_get_user_settings_from_username_def
        split: option.splits)
  have absent:
    "fst (ProfilePage_get cfg (store_services valid taken now) uname self ws) =
       Inl PageNotFoundException"
    if "uname \<noteq> []" "\<not> (\<exists>settings \<in> snd ` set (store ws). username settings = PStr uname)"
  proof -
    have "List.find (\<lambda>settings. username settings = PStr uname) (map snd (store ws)) = None"
      using that(2) by (auto simp: find_None_iff)
    then show ?thesis
      by (simp add: ProfilePage_get_def invoke_def store_get_user_settings_from_username_def)
  qed
  have present:
    "\<exists>settings \<in> snd ` set (store ws).
       username settings = PStr uname \<and>
       (\<exists>vals. fst (ProfilePage_get cfg (store_services valid taken now) uname self ws) =
                  Inr (Rendered_Template ''profile/profile.html'' vals) \<and>
               vals ''nav_mode'' = Some (NAV_MODE_PROFILE cfg) \<and>
               vals ''user_bio'' = Some (user_bio settings))"
    if "uname \<noteq> []" "\<exists>settings \<in> snd ` set (store ws). username settings = PStr uname"
  proof -
    from that(2) obtain found where
      found: "List.find (\<lambda>settings. username settings = PStr uname) (map snd (store ws)) =
                Some found"
      by (cases "List.find (\<lambda>settings. username settings = PStr uname) (map snd (store ws))")
         (auto simp: find_None_iff)
    then have "found \<in> snd ` set (store ws)" and "username found = PStr uname"
      by (auto simp: find_Some_iff)
    moreover have "\<exists>vals. fst (ProfilePage_get cfg (store_services valid taken now) uname self ws) =
                  Inr (Rendered_Template ''profile/profile.html'' vals) \<and>
               vals ''nav_mode'' = Some (NAV_MODE_PROFILE cfg) \<and>
               vals ''user_bio'' = Some (user_bio found)"
      using that(1) found
      by (simp add: ProfilePage_get_def invoke_def store_get_user_settings_from_username_def)
    ultimately show ?thesis
      by blast
  qed
  have absent':
    "uname \<noteq> [] \<and> \<not> (\<exists>settings \<in> snd ` set (store ws). username settings = PStr uname) \<longrightarrow>
       fst (ProfilePage_get cfg (store_services valid taken now) uname self ws) =
         Inl PageNotFoundException"
    using absent by (intro impI) (elim conjE)
  have present':
    "uname \<noteq> [] \<and> (\<exists>settings \<in> snd ` set (store ws). username settings = PStr uname) \<longrightarrow>
       (\<exists>settings \<in> snd ` set (store ws).
          username settings = PStr uname \<and>
          (\<exists>vals. fst (ProfilePage_get cfg (store_services valid taken now) uname self ws) =
                     Inr (Rendered_Template ''profile/profile.html'' vals) \<and>
                  vals ''nav_mode'' = Some (NAV_MODE_PROFILE cfg) \<and>
                  vals ''user_bio'' = Some (user_bio settings)))"
    using present by (intro impI) (elim conjE)
  show ?thesis
    apply (intro conjI)
         apply (rule any_service [THEN conjunct1])
        apply (rule any_service [THEN conjunct2, THEN conjunct1])
       apply (rule any_service [THEN conjunct2, THEN conjunct2])
      apply (rule unchanged)
     apply (rule absent')
    apply (rule present')
    done
qed

theorem C5_profile_page_witness:
  "ProfilePage_get example_env example_services [] anonymous_request example_world =
     (Inl PageNotFoundException, example_world) \<and>
   get_user_settings_from_username example_services ''bob'' (store example_world) =
     (Inr None, example_store) \<and>
   ProfilePage_get example_env example_services ''bob'' anonymous_request example_world =
     (Inl PageNotFoundException,
      \<lparr>store = example_store, calls = [Get_user_settings_from_username ''bob'']\<rparr>) \<and>
   get_user_settings_from_username example_services ''alice'' (store example_world) =
     (Inr (Some alice_settings), example_store) \<and>
   ProfilePage_get example_env example_services ''alice'' anonymous_request example_world =
     (Inr (Rendered_Template ''profile/profile.html''
            [''nav_mode'' \<mapsto> PStr ''profile'', ''user_bio'' \<mapsto> PStr ''hello'']),
      \<lparr>store = example_store, calls = [Get_user_settings_from_username ''alice'']\<rparr>)"
  using C5_profile_page [where uname = "[]" and cfg = example_env and svc = example_services
      and self = anonymous_request and w = example_world and ws = example_world
      and valid = example_valid and taken = "Msg ''This username is taken.''" and now = 7]
    C5_profile_page [where uname = "''bob''" and cfg = example_env and svc = example_services
      and self = anonymous_request and w = example_world and ws = example_world
      and valid = example_valid and taken = "Msg ''This username is taken.''" and now = 7]
    C5_profile_page [where uname = "''alice''" and cfg = example_env and svc = example_services
      and self = anonymous_request and w = example_world and ws = example_world
      and valid = example_valid and taken = "Msg ''This username is taken.''" and now = 7]
  by (simp add: example_services_def example_world_def example_store_def alice_settings_def
      newcomer_settings_def example_env_def anonymous_request_def
      store_get_user_settings_from_username_def invoke_def ProfilePage_get_def)

subsection \<open>Checking a username\<close>

text \<open>
  Claim C6. A POST of a logged-in user to UsernameCheckHandler raises the
  invalid-input exception with the validator's message when
  \<open>require_valid_username\<close> raises a validation error for the submitted username;
  when the validator accepts it, the answer is a JSON object with the one field
  \<open>username_is_taken\<close>, which is the answer of \<open>is_username_taken\<close>. On the store of
  user settings, for every format validator: a username that the validator rejects
  gives the invalid-input exception with the validator's message, and for one that it
  accepts the field \<open>username_is_taken\<close> is true if and only if some stored user
  settings have that username, and false otherwise.
\<close>

theorem C6_username_check:
  assumes auth: "user_id self = Some uid"
    and uname: "uname = dict_get (payload self) ''username''"
  shows "(\<forall>m s1. require_valid_username svc uname (store w) = (Inl (ValidationError m), s1) \<longrightarrow>
            fst (UsernameCheckHandler_post svc self w) = Inl (InvalidInputException m)) \<and>
         (\<forall>s1 taken s2.
            require_valid_username svc uname (store w) = (Inr (), s1) \<and>
            is_username_taken svc uname s1 = (Inr taken, s2) \<longrightarrow>
            (\<exists>json. fst (UsernameCheckHandler_post svc self w) = Inr (Rendered_Json json) \<and>
                    dom json = {''username_is_taken''} \<and>
                    (json ''username_is_taken'' = Some (PBool True) \<longleftrightarrow> taken) \<and>
                    (json ''username_is_taken'' = Some (PBool False) \<longleftrightarrow> \<not> taken))) \<and>
         (\<forall>m. valid uname = Some m \<longrightarrow>
            UsernameCheckHandler_post (store_services valid taken_message now) self ws =
              (Inl (InvalidInputException m),
               \<lparr>store = store ws, calls = calls ws @ [Require_valid_username uname]\<rparr>)) \<and>
         (valid uname = None \<longrightarrow>
            (\<exists>json. UsernameCheckHandler_post (store_services valid taken_message now) self ws =
                      (Inr (Rendered_Json json),
                       \<lparr>store = store ws,
                        calls = calls ws @ [Require_valid_username uname,
                                            Is_username_taken uname]\<rparr>) \<and>
                    dom json = {''username_is_taken''} \<and>
                    (json ''username_is_taken'' = Some (PBool True) \<longleftrightarrow>
                       (\<exists>settings \<in> snd ` set (store ws). username settings = uname)) \<and>
                    (json ''username_is_taken'' = Some (PBool False) \<longleftrightarrow>
                       \<not> (\<exists>settings \<in> snd ` set (store ws). username settings = uname))))"
proof -
  have any_service:
    "(\<forall>m s1. require_valid_username svc uname (store w) = (Inl (ValidationError m), s1) \<longrightarrow>
        fst (UsernameCheckHandler_post svc self w) = Inl (InvalidInputException m)) \<and>
     (\<forall>s1 taken s2.
        require_valid_username svc uname (store w) = (Inr (), s1) \<and>
        is_username_taken svc uname s1 = (Inr taken, s2) \<longrightarrow>
        (\<exists>json. fst (UsernameCheckHandler_post svc self w) = Inr (Rendered_Json json) \<and>
                dom json = {''username_is_taken''} \<and>
                (json ''username_is_taken'' = Some (PBool True) \<longleftrightarrow> taken) \<and>
                (json ''username_is_taken'' = Some (PBool False) \<longleftrightarrow> \<not> taken)))"
    by (auto simp: UsernameCheckHandler_post_def require_user_Some [OF auth] uname
        UsernameCheckHandler_post_body_def invoke_def Let_def)
  have rejected:
    "UsernameCheckHandler_post (store_services valid taken_message now) self ws =
       (Inl (InvalidInputException m),
        \<lparr>store = store ws, calls = calls ws @ [Require_valid_username uname]\<rparr>)"
    if "valid uname = Some m" for m
    using that
    by (simp add: UsernameCheckHandler_post_def require_user_Some [OF auth] uname
        UsernameCheckHandler_post_body_def invoke_def Let_def store_require_valid_username_def)
  have accepted:
    "UsernameCheckHandler_post (store_services valid taken_message now) self ws =
       (Inr (Rendered_Json [''username_is_taken'' \<mapsto> PBool (username_exists uname (store ws))]),
        \<lparr>store = store ws,
         calls = calls ws @ [Require_valid_username uname, Is_username_taken uname]\<rparr>)"
    if "valid uname = None"
    using that
    by (simp add: UsernameCheckHandler_post_def require_user_Some [OF auth] uname
        UsernameCheckHandler_post_body_def invoke_def Let_def store_require_valid_username_def
        store_is_username_taken_def)
  have exists: "username_exists uname (store ws) \<longleftrightarrow>
                  (\<exists>settings \<in> snd ` set (store ws). username settings = uname)"
    by (auto simp: username_exists_def list_ex_iff)
  have on_store:
    "\<exists>json. UsernameCheckHandler_post (store_services valid taken_message now) self ws =
              (Inr (Rendered_Json json),
               \<lparr>store = store ws,
                calls = calls ws @ [Require_valid_username uname, Is_username_taken uname]\<rparr>) \<and>
            dom json = {''username_is_taken''} \<and>
            (json ''username_is_taken'' = Some (PBool True) \<longleftrightarrow>
               (\<exists>settings \<in> snd ` set (store ws). username settings = uname)) \<and>
            (json ''username_is_taken'' = Some (PBool False) \<longleftrightarrow>
               \<not> (\<exists>settings \<in> snd ` set (store ws). username settings = uname))"
    if "valid uname = None"
    unfolding accepted [OF that] exists [symmetric]
    by (rule exI [of _ "[''username_is_taken'' \<mapsto> PBool (username_exists uname (store ws))]"])
       simp
  have rejected':
    "\<forall>m. valid uname = Some m \<longrightarrow>
       UsernameCheckHandler_post (store_services valid taken_message now) self ws =
         (Inl (InvalidInputException m),
          \<lparr>store = store ws, calls = calls ws @ [Require_valid_username uname]\<rparr>)"
    using rejected by (intro allI impI)
  show ?thesis
    apply (intro conjI)
       apply (rule any_service [THEN conjunct1])
      apply (rule any_service [THEN conjunct2])
     apply (rule rejected')
    apply (rule impI)
    apply (erule on_store)
    done
qed

theorem C6_username_check_witness:
  "UsernameCheckHandler_post example_services
          (request ''uid_new'' [''username'' \<mapsto> PStr []]) example_world =
     (Inl (InvalidInputException (Msg ''Empty username supplied.'')),
      \<lparr>store = example_store, calls = [Require_valid_username (PStr [])]\<rparr>) \<and>
   username_exists (PStr ''alice'') example_store \<and>
   fst (UsernameCheckHandler_post example_services
          (request ''uid_new'' [''username'' \<mapsto> PStr ''alice'']) example_world) =
     Inr (Rendered_Json [''username_is_taken'' \<mapsto> PBool True]) \<and>
   \<not> username_exists (PStr ''bob'') example_store \<and>
   fst (UsernameCheckHandler_post example_services
          (request ''uid_new'' [''username'' \<mapsto> PStr ''bob'']) example_world) =
     Inr (Rendered_Json [''username_is_taken'' \<mapsto> PBool False])"
proof -
  have auth: "user_id (request ''uid_new'' body) = Some ''uid_new''" for body
    by (simp add: request_def)
  show ?thesis
    using C6_username_check [where self = "request ''uid_new'' [''username'' \<mapsto> PStr []]"
        and svc = example_services and w = example_world and ws = example_world
        and valid = example_valid and taken_message = "Msg ''This username is taken.''"
        and now = 7, OF auth refl]
      C6_username_check [where self = "request ''uid_new'' [''username'' \<mapsto> PStr ''alice'']"
        and svc = example_services and w = example_world and ws = example_world
        and valid = example_valid and taken_message = "Msg ''This username is taken.''"
        and now = 7, OF auth refl]
      C6_username_check [where self = "request ''uid_new'' [''username'' \<mapsto> PStr ''bob'']"
        and svc = example_services and w = example_world and ws = example_world
        and valid = example_valid and taken_message = "Msg ''This username is taken.''"
        and now = 7, OF auth refl]
    by (simp add: example_services_def example_world_def example_store_def alice_settings_def
        newcomer_settings_def request_def dict_get_def
        store_require_valid_username_def store_is_username_taken_def username_exists_def
        require_user_def invoke_def Let_def UsernameCheckHandler_post_def
        UsernameCheckHandler_post_body_def)
qed

subsection \<open>The bio, written and read back\<close>

text \<open>
  Claim C7. When a PUT of a logged-in user to PreferencesHandler with
  \<open>update_type = user_bio\<close> succeeds, a GET of the same user to PreferencesHandler
  that follows it answers with JSON whose field \<open>user_bio\<close> is the \<open>data\<close> that was
  submitted, whatever value that is. The service is the store of user settings.
\<close>

theorem C7_bio_round_trip:
  assumes auth: "user_id self = Some uid"
    and kind: "dict_get (payload self) ''update_type'' = PStr ''user_bio''"
    and put: "PreferencesHandler_put (store_services valid taken now) self w = (Inr r, w')"
    and auth': "user_id self' = Some uid"
  shows "\<exists>json w''. PreferencesHandler_get (store_services valid taken now) self' w' =
                      (Inr (Rendered_Json json), w'') \<and>
                    json ''user_bio'' = Some (dict_get (payload self) ''data'')"
  using kind put
  by (auto simp: PreferencesHandler_put_def PreferencesHandler_get_def
      require_user_Some [OF auth] require_user_Some [OF auth']
      PreferencesHandler_put_body_def PreferencesHandler_get_body_def Let_def invoke_def
      store_update_user_bio_def store_get_user_settings_def update_conv'
      split: option.splits)


theorem C7_bio_round_trip_witness:
  "PreferencesHandler_put example_services
     (request ''uid_alice'' [''update_type'' \<mapsto> PStr ''user_bio'', ''data'' \<mapsto> PStr ''new bio''])
     example_world =
     (Inr Default_Response,
      \<lparr>store = [(''uid_alice'', alice_settings\<lparr>user_bio := PStr ''new bio''\<rparr>),
                (''uid_new'', newcomer_settings)],
       calls = [Update_user_bio ''uid_alice'' (PStr ''new bio'')]\<rparr>) \<and>
   (\<exists>json w''.
      PreferencesHandler_get example_services (request ''uid_alice'' Map.empty)
        \<lparr>store = [(''uid_alice'', alice_settings\<lparr>user_bio := PStr ''new bio''\<rparr>),
                  (''uid_new'', newcomer_settings)],
         calls = [Update_user_bio ''uid_alice'' (PStr ''new bio'')]\<rparr> =
        (Inr (Rendered_Json json), w'') \<and>
      json ''user_bio'' = Some (PStr ''new bio''))"
proof -
  have auth: "user_id (request ''uid_alice'' body) = Some ''uid_alice''" for body
    by (simp add: request_def)
  have kind: "dict_get (payload (request ''uid_alice''
                 [''update_type'' \<mapsto> PStr ''user_bio'', ''data'' \<mapsto> PStr ''new bio'']))
                ''update_type'' = PStr ''user_bio''"
    by (simp add: example_services_def example_world_def example_store_def alice_settings_def
        newcomer_settings_def request_def dict_get_def)
  have put: "PreferencesHandler_put (store_services example_valid (Msg ''This username is taken.'') 7)
      (request ''uid_alice'' [''update_type'' \<mapsto> PStr ''user_bio'', ''data'' \<mapsto> PStr ''new bio''])
      example_world =
      (Inr Default_Response,
       \<lparr>store = [(''uid_alice'', alice_settings\<lparr>user_bio := PStr ''new bio''\<rparr>),
                 (''uid_new'', newcomer_settings)],
        calls = [Update_user_bio ''uid_alice'' (PStr ''new bio'')]\<rparr>)"
    by (simp add: example_services_def example_world_def example_store_def alice_settings_def
        newcomer_settings_def request_def dict_get_def store_update_user_bio_def require_user_def invoke_def Let_def PreferencesHandler_put_def
        PreferencesHandler_put_body_def)
  show ?thesis
    using put C7_bio_round_trip [OF auth kind put auth, of Map.empty]
    by (simp add: example_services_def example_world_def example_store_def alice_settings_def
        newcomer_settings_def request_def dict_get_def)
qed

subsection \<open>Reading the prerequisites\<close>

text \<open>
  Claim C8. A GET of a logged-in user to EditorPrerequisitesHandler, for whom the
  service has settings, answers with a JSON object of exactly two fields:
  \<open>has_agreed_to_terms\<close>, the truth value of the stored \<open>last_agreed_to_terms\<close>
  (false for \<^verbatim>\<open>None\<close>, true for a date), and \<open>username\<close>, the stored username, which
  is \<^verbatim>\<open>None\<close> when no username has been set.
\<close>

theorem C8_editor_prerequisites_get:
  assumes auth: "user_id self = Some uid"
    and settings: "get_user_settings svc uid (store w) = (Inr (Some settings), s')"
  shows "\<exists>json. fst (EditorPrerequisitesHandler_get svc self w) = Inr (Rendered_Json json) \<and>
           dom json = {''has_agreed_to_terms'', ''username''} \<and>
           json ''has_agreed_to_terms'' = Some (PBool (truthy (last_agreed_to_terms settings))) \<and>
           json ''username'' = Some (username settings)"
  using settings
  by (auto simp: EditorPrerequisitesHandler_get_def require_user_Some [OF auth]
      EditorPrerequisitesHandler_get_body_def invoke_def)

theorem C8_editor_prerequisites_get_witness:
  "get_user_settings example_services ''uid_new'' (store example_world) =
     (Inr (Some newcomer_settings), example_store) \<and>
   fst (EditorPrerequisitesHandler_get example_services (request ''uid_new'' Map.empty)
          example_world) =
     Inr (Rendered_Json [''has_agreed_to_terms'' \<mapsto> PBool False, ''username'' \<mapsto> PNone]) \<and>
   get_user_settings example_services ''uid_alice'' (store example_world) =
     (Inr (Some alice_settings), example_store) \<and>
   fst (EditorPrerequisitesHandler_get example_services (request ''uid_alice'' Map.empty)
          example_world) =
     Inr (Rendered_Json
            [''has_agreed_to_terms'' \<mapsto> PBool True, ''username'' \<mapsto> PStr ''alice''])"
proof -
  have auth: "user_id (request uid Map.empty) = Some uid" for uid
    by (simp add: request_def)
  have new: "get_user_settings example_services ''uid_new'' (store example_world) =
               (Inr (Some newcomer_settings), example_store)"
    and alice: "get_user_settings example_services ''uid_alice'' (store example_world) =
               (Inr (Some alice_settings), example_store)"
    by (simp_all add: example_services_def example_world_def example_store_def alice_settings_def
        newcomer_settings_def request_def dict_get_def store_get_user_settings_def)
  show ?thesis
    using new alice C8_editor_prerequisites_get [OF auth new]
      C8_editor_prerequisites_get [OF auth alice]
    by (simp add: example_services_def example_world_def example_store_def alice_settings_def
        newcomer_settings_def request_def dict_get_def store_get_user_settings_def require_user_def invoke_def EditorPrerequisitesHandler_get_def
        EditorPrerequisitesHandler_get_body_def)
qed

subsection \<open>The agreement survives a rejected username\<close>



subsection \<open>A payload without a username\<close>

text \<open>
  Claim C10. Neither POST handler has an error of its own for a payload without the
  key \<open>username\<close>. UsernameCheckHandler calls the validator with \<^verbatim>\<open>None\<close>, and
  its outcome is what the validator and \<open>is_username_taken\<close> make of \<^verbatim>\<open>None\<close>;
  EditorPrerequisitesHandler, once it comes to set the username, calls
  \<open>set_username\<close> with \<^verbatim>\<open>None\<close>, and its outcome is what that call makes of it.
\<close>

theorem C10_missing_username_is_None:
  assumes auth: "user_id self = Some uid"
    and missing: "payload self ''username'' = None"
  shows "(\<exists>rest. calls (snd (UsernameCheckHandler_post svc self w)) =
                   calls w @ Require_valid_username PNone # rest) \<and>
         fst (UsernameCheckHandler_post svc self w) =
           (case require_valid_username svc PNone (store w) of
              (Inl e, s1) \<Rightarrow> Inl (reraise_validation_error e)
            | (Inr u, s1) \<Rightarrow>
                (case is_username_taken svc PNone s1 of
                   (Inl e, s2) \<Rightarrow> Inl e
                 | (Inr taken, s2) \<Rightarrow>
                     Inr (Rendered_Json [''username_is_taken'' \<mapsto> PBool taken]))) \<and>
         (\<forall>s1 current s2.
            dict_get (payload self) ''agreed_to_terms'' = PBool True \<and>
            record_agreement_to_terms svc uid (store w) = (Inr (), s1) \<and>
            get_username svc uid s1 = (Inr current, s2) \<and> \<not> truthy current \<longrightarrow>
            calls (snd (EditorPrerequisitesHandler_post svc self w)) =
              calls w @ [Record_agreement_to_terms uid, Get_username uid,
                         Set_username uid PNone] \<and>
            fst (EditorPrerequisitesHandler_post svc self w) =
              (case set_username svc uid PNone s2 of
                 (Inl e, s3) \<Rightarrow> Inl (reraise_validation_error e)
               | (Inr u, s3) \<Rightarrow> Inr (Rendered_Json Map.empty)))"
proof -
  have none: "dict_get (payload self) ''username'' = PNone"
    using missing by (simp add: dict_get_def)
  show ?thesis
    by (auto simp: UsernameCheckHandler_post_def EditorPrerequisitesHandler_post_def
        require_user_Some [OF auth] UsernameCheckHandler_post_body_def
        EditorPrerequisitesHandler_post_body_def invoke_def Let_def none
        split: prod.splits sum.splits)
qed


theorem C10_missing_username_is_None_witness:
  "payload (request ''uid_new'' Map.empty) ''username'' = None \<and>
   UsernameCheckHandler_post example_services (request ''uid_new'' Map.empty) example_world =
     (Inl (InvalidInputException (Msg ''Empty username supplied.'')),
      \<lparr>store = example_store, calls = [Require_valid_username PNone]\<rparr>) \<and>
   payload (request ''uid_new'' [''agreed_to_terms'' \<mapsto> PBool True]) ''username'' = None \<and>
   EditorPrerequisitesHandler_post example_services (request ''uid_new'' [''agreed_to_terms'' \<mapsto> PBool True]) example_world =
     (Inl (InvalidInputException (Msg ''Empty username supplied.'')),
      \<lparr>store = newcomer_agreed_store,
       calls = [Record_agreement_to_terms ''uid_new'', Get_username ''uid_new'',
                Set_username ''uid_new'' PNone]\<rparr>)"
proof -
  have auth: "user_id (request ''uid_new'' body) = Some ''uid_new''" for body
    by (simp add: request_def)
  have missing1: "payload (request ''uid_new'' Map.empty) ''username'' = None"
    and missing2: "payload (request ''uid_new'' [''agreed_to_terms'' \<mapsto> PBool True]) ''username'' = None"
    by (simp_all add: request_def)
  show ?thesis
    using C10_missing_username_is_None [OF auth missing1, of example_services example_world]
      C10_missing_username_is_None [OF auth missing2, of example_services example_world]
    by (simp add: example_services_def example_world_def example_store_def alice_settings_def
        newcomer_settings_def request_def dict_get_def newcomer_agreed_store_def store_require_valid_username_def store_is_username_taken_def username_exists_def
        store_record_agreement_to_terms_def store_get_username_def store_set_username_def require_user_def invoke_def Let_def UsernameCheckHandler_post_def
        UsernameCheckHandler_post_body_def EditorPrerequisitesHandler_post_def
        EditorPrerequisitesHandler_post_body_def update_conv')
qed

end
